theory Spec2Isabelle
  imports Complex_Main
begin

section \<open>JavaScript values\<close>

text \<open>
  The repository holds three copies of the calculator's pure logic:
  \<^item> \<^verbatim>\<open>src/script.js\<close> (definitions with the suffix \<open>_script\<close>);
  \<^item> the first file of \<^verbatim>\<open>src/unnamed/part_000\<close>, lines 1 to 256 (suffix \<open>_p0a\<close>);
  \<^item> the second file of \<^verbatim>\<open>src/unnamed/part_000\<close>, lines 257 to 473 (suffix \<open>_p0b\<close>).
  \<^verbatim>\<open>getAgeBand\<close> and \<^verbatim>\<open>PTP_TABLE\<close> are the same text in all three and are embedded once.

  A JavaScript number is a finite double, NaN or an infinity. The code only compares
  numbers with integer literals, and every finite double is a real number on which
  \<open><\<close>, \<open>\<le>\<close> and \<open>===\<close> agree with the reals, so a finite number is modelled by a real
  (both zeros are the real 0, which the comparisons of the code do not tell apart).
  The values the functions receive are primitives: the DOM hands over strings, and the
  callers convert the age with \<^verbatim>\<open>Number\<close>. Objects, symbols and big integers are left
  out of the model.
\<close>

datatype jsnum = Fin real | NaN | PosInf | NegInf

datatype jsval = JUndefined | JNull | JBool bool | JNum jsnum | JStr string

text \<open>\<^verbatim>\<open>!v\<close> is \<open>\<not> truthy v\<close>.\<close>

fun truthy :: "jsval \<Rightarrow> bool" where
  "truthy JUndefined = False"
| "truthy JNull = False"
| "truthy (JBool b) = b"
| "truthy (JNum (Fin r)) = (r \<noteq> 0)"
| "truthy (JNum NaN) = False"
| "truthy (JNum PosInf) = True"
| "truthy (JNum NegInf) = True"
| "truthy (JStr s) = (s \<noteq> [])"

text \<open>
  \<^verbatim>\<open>Array.prototype.includes\<close> compares with SameValueZero: on primitives that is
  equality of the values, NaN equal to itself and the two zeros equal, which is
  equality of the model's values.
\<close>

definition includes_js :: "jsval list \<Rightarrow> jsval \<Rightarrow> bool" where
  "includes_js xs v = (v \<in> set xs)"

text \<open>
  \<^verbatim>\<open>Number(v)\<close>. The conversion of a string is the host's StringToNumber; it is a
  parameter of every function that converts a string.
\<close>

fun Number_js :: "(string \<Rightarrow> jsnum) \<Rightarrow> jsval \<Rightarrow> jsnum" where
  "Number_js strToNum JUndefined = NaN"
| "Number_js strToNum JNull = Fin 0"
| "Number_js strToNum (JBool b) = Fin (if b then 1 else 0)"
| "Number_js strToNum (JNum n) = n"
| "Number_js strToNum (JStr s) = strToNum s"

text \<open>\<^verbatim>\<open>n > c\<close> and \<^verbatim>\<open>n < c\<close> for a number \<open>n\<close> and a finite literal \<open>c\<close>.\<close>

fun js_gt :: "jsnum \<Rightarrow> real \<Rightarrow> bool" where
  "js_gt (Fin r) c = (r > c)"
| "js_gt NaN c = False"
| "js_gt PosInf c = True"
| "js_gt NegInf c = False"

fun js_lt :: "jsnum \<Rightarrow> real \<Rightarrow> bool" where
  "js_lt (Fin r) c = (r < c)"
| "js_lt NaN c = False"
| "js_lt PosInf c = False"
| "js_lt NegInf c = True"

text \<open>
  The characters outside ASCII that the string literals of the sources use, as the
  bytes of their UTF-8 encoding (the encoding of the source files).
\<close>

definition LE_SIGN :: string where
  "LE_SIGN = [CHR 0xE2, CHR 0x89, CHR 0xA4]"

definition GE_SIGN :: string where
  "GE_SIGN = [CHR 0xE2, CHR 0x89, CHR 0xA5]"

definition EN_DASH :: string where
  "EN_DASH = [CHR 0xE2, CHR 0x80, CHR 0x93]"

definition RIGHT_ARROW :: string where
  "RIGHT_ARROW = [CHR 0xE2, CHR 0x86, CHR 0x92]"

text \<open>
  The template literal \<^verbatim>\<open>${ptp}\<close> prints a table entry, an integer, in decimal.
\<close>

definition digit_char :: "nat \<Rightarrow> char" where
  "digit_char d = ''0123456789'' ! d"

fun showNat :: "nat \<Rightarrow> string" where
  "showNat n = (if n < 10 then [digit_char n] else showNat (n div 10) @ [digit_char (n mod 10)])"

declare showNat.simps [simp del]

definition showInt :: "int \<Rightarrow> string" where
  "showInt i = (if i < 0 then CHR ''-'' # showNat (nat (- i)) else showNat (nat i))"

section \<open>Age bands and the probability table (the same in the three files)\<close>

text \<open>
  \<^verbatim>\<open>getAgeBand\<close>: the first equation is the branch where \<^verbatim>\<open>Number.isFinite(ageYears)\<close>
  holds (a number that is finite); every other value, a non-number included, gives null.
\<close>

fun getAgeBand :: "jsval \<Rightarrow> jsval" where
  "getAgeBand (JNum (Fin ageYears)) =
     (if ageYears < 30 then JStr ''lt30''
      else if ageYears \<le> 39 then JStr ''30-39''
      else if ageYears \<le> 49 then JStr ''40-49''
      else if ageYears \<le> 59 then JStr ''50-59''
      else if ageYears \<le> 69 then JStr ''60-69''
      else JStr ''70+'')"
| "getAgeBand _ = JNull"

text \<open>An object literal is its list of own properties, in the order of the source.\<close>

definition PTP_TABLE :: "(string \<times> (string \<times> (string \<times> int) list) list) list" where
  "PTP_TABLE =
    [(''chestPain'',
       [(''men'',   [(''30-39'', 4), (''40-49'', 22), (''50-59'', 32), (''60-69'', 44), (''70+'', 52)]),
        (''women'', [(''30-39'', 5), (''40-49'', 10), (''50-59'', 13), (''60-69'', 16), (''70+'', 27)])]),
     (''dyspnea'',
       [(''men'',   [(''30-39'', 0), (''40-49'', 12), (''50-59'', 20), (''60-69'', 27), (''70+'', 32)]),
        (''women'', [(''30-39'', 3), (''40-49'', 3), (''50-59'', 9), (''60-69'', 14), (''70+'', 12)])])]"

text \<open>
  \<^verbatim>\<open>obj?.[key]\<close> on a level of the table. A string key reads the own property of that
  name. A key that is no own property gives \<open>None\<close>, which stands for every value that
  makes the whole chain \<^verbatim>\<open>PTP_TABLE?.[symptom]?.[sex]?.[ageBand]\<close> end in undefined: a
  primitive key that is not a string converts to a string that names no level of the
  table, and a member inherited from \<^verbatim>\<open>Object.prototype\<close> has no property named like
  an age band.
\<close>

fun own_prop :: "(string \<times> 'a) list \<Rightarrow> jsval \<Rightarrow> 'a option" where
  "own_prop obj (JStr k) = map_of obj k"
| "own_prop obj _ = None"

text \<open>
  \<^verbatim>\<open>PTP_TABLE?.[symptom]?.[sex]?.[ageBand]\<close>; \<open>None\<close> is undefined, the one result on
  which \<^verbatim>\<open>Number.isFinite(ptp)\<close> is false, since every entry is a finite number.
\<close>

definition ptp_lookup :: "jsval \<Rightarrow> jsval \<Rightarrow> jsval \<Rightarrow> int option" where
  "ptp_lookup symptom sex ageBand =
     (case own_prop PTP_TABLE symptom of
        None \<Rightarrow> None
      | Some bySex \<Rightarrow>
          (case own_prop bySex sex of
             None \<Rightarrow> None
           | Some byBand \<Rightarrow> own_prop byBand ageBand))"

record flag =
  level :: string
  msg :: string

section \<open>The first file of part\_000\<close>

text \<open>
  The result object of \<^verbatim>\<open>calculatePretestProbability\<close>: \<open>PtpFail flags ageBand\<close> is
  \<^verbatim>\<open>{ ok: false, flags, ageBand }\<close> and \<open>PtpOk ptpPercent ptpDisplay category ageBand flags\<close>
  is \<^verbatim>\<open>{ ok: true, ptpPercent, ptpDisplay, category, ageBand, flags }\<close>.
\<close>

datatype ptpResult =
    PtpFail "flag list" jsval
  | PtpOk int string string jsval "flag list"

fun ptp_ok :: "ptpResult \<Rightarrow> bool" where
  "ptp_ok (PtpFail fl ab) = False"
| "ptp_ok (PtpOk p d c ab fl) = True"

fun ptp_flags :: "ptpResult \<Rightarrow> flag list" where
  "ptp_flags (PtpFail fl ab) = fl"
| "ptp_flags (PtpOk p d c ab fl) = fl"

definition AGE_FLAG :: flag where
  "AGE_FLAG = \<lparr>level = ''bad'', msg = ''Age is required and must be a number.''\<rparr>"

definition LT30_WARN_p0a :: flag where
  "LT30_WARN_p0a = \<lparr>level = ''warn'',
     msg = ''Age <30: the provided figure table begins at 30'' @ EN_DASH @
           ''39. Result may not be applicable.''\<rparr>"

definition SEX_FLAG :: flag where
  "SEX_FLAG = \<lparr>level = ''bad'', msg = ''Sex is required.''\<rparr>"

definition SYMPTOM_FLAG :: flag where
  "SYMPTOM_FLAG = \<lparr>level = ''bad'', msg = ''Symptom selection is required.''\<rparr>"

definition LT30_BAD_p0a :: flag where
  "LT30_BAD_p0a = \<lparr>level = ''bad'',
     msg = ''No table value available for age <30 from the provided figure. Cannot compute.''\<rparr>"

definition NO_MATCH_p0a :: flag where
  "NO_MATCH_p0a = \<lparr>level = ''bad'', msg = ''No matching table value found (check inputs).''\<rparr>"

text \<open>
  \<^verbatim>\<open>calculatePretestProbability\<close> (part\_000, lines 40 to 82). \<open>flags1\<close> to \<open>flags4\<close>
  are the array \<^verbatim>\<open>flags\<close> after each of the four conditional pushes.
\<close>

definition calculatePretestProbability_p0a :: "jsval \<Rightarrow> jsval \<Rightarrow> jsval \<Rightarrow> ptpResult" where
  "calculatePretestProbability_p0a ageYears sex symptom =
     (let ageBand = getAgeBand ageYears;
          flags1 = (if \<not> truthy ageBand then [AGE_FLAG] else []);
          flags2 = (if ageBand = JStr ''lt30'' then flags1 @ [LT30_WARN_p0a] else flags1);
          flags3 = (if \<not> truthy sex \<or> \<not> includes_js [JStr ''men'', JStr ''women''] sex
                    then flags2 @ [SEX_FLAG] else flags2);
          flags4 = (if \<not> truthy symptom \<or> \<not> includes_js [JStr ''chestPain'', JStr ''dyspnea''] symptom
                    then flags3 @ [SYMPTOM_FLAG] else flags3)
      in if list_ex (\<lambda>f. level f = ''bad'') flags4 then PtpFail flags4 ageBand
         else if ageBand = JStr ''lt30'' then PtpFail (flags4 @ [LT30_BAD_p0a]) ageBand
         else (case ptp_lookup symptom sex ageBand of
                 None \<Rightarrow> PtpFail (flags4 @ [NO_MATCH_p0a]) ageBand
               | Some ptp \<Rightarrow>
                   PtpOk ptp (LE_SIGN @ showInt ptp @ ''%'')
                     (if ptp \<le> 15 then ''low'' else ''intermediateHigh'') ageBand flags4))"

text \<open>
  \<^verbatim>\<open>interpretCAC\<close> (part\_000, lines 87 to 106). \<open>None\<close> is null,
  \<open>CacInvalid level label detail\<close> is \<^verbatim>\<open>{ ok: false, level, label, detail }\<close> and
  \<open>CacBucket bucket ptpRange level label detail\<close> is
  \<^verbatim>\<open>{ ok: true, bucket, ptpRange, level, label, detail }\<close>.
\<close>

datatype cacResult_p0a =
    CacInvalid string string string
  | CacBucket string string string string string

fun cac_ok_p0a :: "cacResult_p0a \<Rightarrow> bool" where
  "cac_ok_p0a (CacInvalid lv lb dt) = False"
| "cac_ok_p0a (CacBucket bk rg lv lb dt) = True"

definition CAC_INVALID_p0a :: cacResult_p0a where
  "CAC_INVALID_p0a =
     CacInvalid ''bad'' ''Invalid CAC'' (''CAC must be a number '' @ GE_SIGN @ '' 0.'')"

definition interpretCAC_p0a :: "(string \<Rightarrow> jsnum) \<Rightarrow> jsval \<Rightarrow> cacResult_p0a option" where
  "interpretCAC_p0a strToNum cacScore =
     (if cacScore = JNull \<or> cacScore = JUndefined \<or> cacScore = JStr [] then None
      else
        (case Number_js strToNum cacScore of
           Fin n \<Rightarrow>
             if n < 0 then Some CAC_INVALID_p0a
             else if n = 0 then
               Some (CacBucket ''0'' (LE_SIGN @ ''15%'') ''low'' ''CAC 0''
                 (''Figure-style interpretation: CAC 0 '' @ RIGHT_ARROW @ '' '' @ LE_SIGN @ ''15%.''))
             else if n \<ge> 1 \<and> n \<le> 99 then
               Some (CacBucket ''1-99'' (LE_SIGN @ ''15%'') ''low'' (''CAC 1'' @ EN_DASH @ ''99'')
                 (''CAC 1'' @ EN_DASH @ ''99 '' @ RIGHT_ARROW @ '' '' @ LE_SIGN @ ''15% (low).''))
             else if n \<ge> 100 \<and> n \<le> 999 then
               Some (CacBucket ''100-999'' (''>15'' @ EN_DASH @ ''50%'') ''high''
                 (''CAC 100'' @ EN_DASH @ ''999'')
                 (''CAC 100'' @ EN_DASH @ ''999 '' @ RIGHT_ARROW @ '' >15'' @ EN_DASH @ ''50%.''))
             else
               Some (CacBucket ''>=1000'' ''>50%'' ''veryhigh'' (''CAC '' @ GE_SIGN @ ''1000'')
                 (''CAC '' @ GE_SIGN @ ''1000 '' @ RIGHT_ARROW @ '' >50%.''))
         | _ \<Rightarrow> Some CAC_INVALID_p0a))"

text \<open>
  \<^verbatim>\<open>onCalculate\<close> (part\_000, lines 203 to 225) without its two rendering calls: the
  \<^verbatim>\<open>value\<close> strings of the four inputs go in, and \<^verbatim>\<open>ptpObj\<close>, \<^verbatim>\<open>cacObj\<close> and
  \<^verbatim>\<open>mergedFlags\<close>, the arguments of the rendering calls, come out.
\<close>

record els_values =
  age_value :: string
  sex_value :: string
  symptom_value :: string
  cac_value :: string

definition onCalculate_p0a ::
  "(string \<Rightarrow> jsnum) \<Rightarrow> els_values \<Rightarrow> ptpResult \<times> cacResult_p0a option \<times> flag list" where
  "onCalculate_p0a strToNum els =
     (let ageYears = Number_js strToNum (JStr (age_value els));
          sex = JStr (sex_value els);
          symptom = JStr (symptom_value els);
          cacVal = JStr (cac_value els);
          ptpObj = calculatePretestProbability_p0a (JNum ageYears) sex symptom;
          cacObj = (if cacVal \<noteq> JStr [] \<and> cacVal \<noteq> JNull \<and> cacVal \<noteq> JUndefined
                    then interpretCAC_p0a strToNum cacVal else None);
          merged0 = ptp_flags ptpObj;
          merged1 = (if ptp_ok ptpObj \<and> js_gt ageYears 100
                     then merged0 @ [\<lparr>level = ''warn'', msg = ''Age >100: verify input.''\<rparr>]
                     else merged0);
          merged2 = (if ptp_ok ptpObj \<and> js_lt ageYears 30
                     then merged1 @ [\<lparr>level = ''warn'',
                            msg = ''Age <30: outside figure range; computation not provided.''\<rparr>]
                     else merged1);
          merged3 = (case cacObj of
                       None \<Rightarrow> merged2
                     | Some c \<Rightarrow>
                         if \<not> cac_ok_p0a c
                         then merged2 @ [\<lparr>level = ''bad'',
                                msg = ''CAC input invalid (must be '' @ GE_SIGN @ ''0).''\<rparr>]
                         else merged2)
      in (ptpObj, cacObj, merged3))"

section \<open>The second file of part\_000\<close>

text \<open>
  The result object of \<^verbatim>\<open>calculatePretestProbability\<close> in this file and in
  \<^verbatim>\<open>src/script.js\<close>: \<open>ShortFail flags\<close> is \<^verbatim>\<open>{ ok: false, flags }\<close> and
  \<open>ShortOk ptpDisplay category flags\<close> is \<^verbatim>\<open>{ ok: true, ptpDisplay, category, flags }\<close>.
\<close>

datatype ptpResultShort =
    ShortFail "flag list"
  | ShortOk string string "flag list"

definition LT30_WARN_p0b :: flag where
  "LT30_WARN_p0b = \<lparr>level = ''warn'',
     msg = ''Age <30: figure table begins at 30'' @ EN_DASH @ ''39; not applicable.''\<rparr>"

definition LT30_BAD_p0b :: flag where
  "LT30_BAD_p0b = \<lparr>level = ''bad'',
     msg = ''No table value for age <30 from the provided figure.''\<rparr>"

definition NO_MATCH_p0b :: flag where
  "NO_MATCH_p0b = \<lparr>level = ''bad'', msg = ''No matching table value found.''\<rparr>"

text \<open>\<^verbatim>\<open>calculatePretestProbability\<close> (part\_000, lines 288 to 313).\<close>

definition calculatePretestProbability_p0b :: "jsval \<Rightarrow> jsval \<Rightarrow> jsval \<Rightarrow> ptpResultShort" where
  "calculatePretestProbability_p0b ageYears sex symptom =
     (let ageBand = getAgeBand ageYears;
          flags1 = (if \<not> truthy ageBand then [AGE_FLAG] else []);
          flags2 = (if ageBand = JStr ''lt30'' then flags1 @ [LT30_WARN_p0b] else flags1);
          flags3 = (if \<not> truthy sex \<or> \<not> includes_js [JStr ''men'', JStr ''women''] sex
                    then flags2 @ [SEX_FLAG] else flags2);
          flags4 = (if \<not> truthy symptom \<or> \<not> includes_js [JStr ''chestPain'', JStr ''dyspnea''] symptom
                    then flags3 @ [SYMPTOM_FLAG] else flags3)
      in if list_ex (\<lambda>f. level f = ''bad'') flags4 then ShortFail flags4
         else if ageBand = JStr ''lt30'' then ShortFail (flags4 @ [LT30_BAD_p0b])
         else (case ptp_lookup symptom sex ageBand of
                 None \<Rightarrow> ShortFail (flags4 @ [NO_MATCH_p0b])
               | Some ptp \<Rightarrow>
                   ShortOk (LE_SIGN @ showInt ptp @ ''%'')
                     (if ptp \<le> 15 then ''low'' else ''intermediateHigh'') flags4))"

text \<open>
  \<^verbatim>\<open>interpretCAC\<close> (part\_000, lines 321 to 328): \<open>CacBad msg\<close> is
  \<^verbatim>\<open>{ ok: false, msg }\<close> and \<open>CacGood range category\<close> is \<^verbatim>\<open>{ ok: true, range, category }\<close>.
\<close>

datatype cacResult_p0b =
    CacBad string
  | CacGood string string

definition interpretCAC_p0b :: "(string \<Rightarrow> jsnum) \<Rightarrow> jsval \<Rightarrow> cacResult_p0b" where
  "interpretCAC_p0b strToNum cacScore =
     (case Number_js strToNum cacScore of
        Fin n \<Rightarrow>
          if n < 0 then CacBad (''CAC must be a number '' @ GE_SIGN @ '' 0.'')
          else if n \<le> 99 then CacGood (LE_SIGN @ ''15%'') ''low''
          else if n \<le> 999 then CacGood (''>15'' @ EN_DASH @ ''50%'') ''intermediateHigh''
          else CacGood ''>50%'' ''high''
      | _ \<Rightarrow> CacBad (''CAC must be a number '' @ GE_SIGN @ '' 0.''))"

text \<open>
  \<^verbatim>\<open>onCalculate\<close> (part\_000, lines 433 to 447) without its two rendering calls:
  \<^verbatim>\<open>ptpObj\<close> and \<^verbatim>\<open>cacObj\<close> come out.
\<close>

definition onCalculate_p0b ::
  "(string \<Rightarrow> jsnum) \<Rightarrow> els_values \<Rightarrow> ptpResultShort \<times> cacResult_p0b option" where
  "onCalculate_p0b strToNum els =
     (let ageYears = Number_js strToNum (JStr (age_value els));
          sex = JStr (sex_value els);
          symptom = JStr (symptom_value els);
          ptpObj = calculatePretestProbability_p0b (JNum ageYears) sex symptom;
          cacVal = JStr (cac_value els);
          cacObj = (if cacVal \<noteq> JStr [] \<and> cacVal \<noteq> JNull \<and> cacVal \<noteq> JUndefined
                    then Some (interpretCAC_p0b strToNum cacVal) else None)
      in (ptpObj, cacObj))"

section \<open>script.js\<close>

text \<open>\<^verbatim>\<open>calculatePretestProbability\<close> (script.js, lines 26 to 39).\<close>

definition calculatePretestProbability_script :: "jsval \<Rightarrow> jsval \<Rightarrow> jsval \<Rightarrow> ptpResultShort" where
  "calculatePretestProbability_script ageYears sex symptom =
     (let ageBand = getAgeBand ageYears
      in if \<not> truthy ageBand \<or> \<not> truthy sex \<or> \<not> truthy symptom then ShortFail []
         else (case ptp_lookup symptom sex ageBand of
                 None \<Rightarrow> ShortFail []
               | Some ptp \<Rightarrow>
                   ShortOk (LE_SIGN @ showInt ptp @ ''%'')
                     (if ptp \<le> 15 then ''low'' else ''intermediateHigh'') []))"

text \<open>
  \<^verbatim>\<open>interpretCAC\<close> (script.js, lines 45 to 56): \<open>None\<close> is null and
  \<open>CacRange range category\<close> is \<^verbatim>\<open>{ range, category }\<close>.
\<close>

datatype cacResult_script = CacRange string string

definition interpretCAC_script :: "(string \<Rightarrow> jsnum) \<Rightarrow> jsval \<Rightarrow> cacResult_script option" where
  "interpretCAC_script strToNum cacScore =
     (case Number_js strToNum cacScore of
        Fin n \<Rightarrow>
          if n < 0 then None
          else if n \<le> 99 then Some (CacRange (LE_SIGN @ ''15%'') ''low'')
          else if n \<le> 999 then Some (CacRange (''>15'' @ EN_DASH @ ''50%'') ''intermediateHigh'')
          else Some (CacRange ''>50%'' ''high'')
      | _ \<Rightarrow> None)"

text \<open>
  \<^verbatim>\<open>onCalculate\<close> (script.js, lines 116 to 125) without its rendering call: \<^verbatim>\<open>ptp\<close>
  and \<^verbatim>\<open>cac\<close> come out.
\<close>

definition onCalculate_script ::
  "(string \<Rightarrow> jsnum) \<Rightarrow> els_values \<Rightarrow> ptpResultShort \<times> cacResult_script option" where
  "onCalculate_script strToNum els =
     (let ptp = calculatePretestProbability_script
                  (JNum (Number_js strToNum (JStr (age_value els))))
                  (JStr (sex_value els)) (JStr (symptom_value els));
          cac = (if truthy (JStr (cac_value els))
                 then interpretCAC_script strToNum (JStr (cac_value els)) else None)
      in (ptp, cac))"

section \<open>Reading a property of a result object\<close>

text \<open>
  \<^verbatim>\<open>obj.ptpPercent\<close> and \<^verbatim>\<open>obj.ageBand\<close> on the objects that \<^verbatim>\<open>calculatePretestProbability\<close>
  returns; \<open>None\<close> is undefined, what reading a property gives on an object that was
  built without it. The objects of the first file of part\_000 all have \<^verbatim>\<open>ageBand\<close> and
  the successes have \<^verbatim>\<open>ptpPercent\<close>; the objects of the other two files have neither.
\<close>

fun ptpPercent_of :: "ptpResult \<Rightarrow> int option" where
  "ptpPercent_of (PtpFail fl ab) = None"
| "ptpPercent_of (PtpOk p d c ab fl) = Some p"

fun ageBand_of :: "ptpResult \<Rightarrow> jsval option" where
  "ageBand_of (PtpFail fl ab) = Some ab"
| "ageBand_of (PtpOk p d c ab fl) = Some ab"

fun ptpPercent_short :: "ptpResultShort \<Rightarrow> int option" where
  "ptpPercent_short (ShortFail fl) = None"
| "ptpPercent_short (ShortOk d c fl) = None"

fun ageBand_short :: "ptpResultShort \<Rightarrow> jsval option" where
  "ageBand_short (ShortFail fl) = None"
| "ageBand_short (ShortOk d c fl) = None"

section \<open>Shared facts\<close>

lemma getAgeBand_null_or_band:
  "getAgeBand age = JNull \<or>
   (\<exists>b. getAgeBand age = JStr b \<and>
        b \<in> set [''lt30'', ''30-39'', ''40-49'', ''50-59'', ''60-69'', ''70+''])"
  by (cases age rule: getAgeBand.cases) auto

lemma not_truthy_band: "(\<not> truthy (getAgeBand age)) = (getAgeBand age = JNull)"
  using getAgeBand_null_or_band [of age] by auto

lemma invalid_sex_iff:
  "(\<not> truthy sex \<or> \<not> includes_js [JStr ''men'', JStr ''women''] sex) =
     (sex \<noteq> JStr ''men'' \<and> sex \<noteq> JStr ''women'')"
  by (cases sex) (auto simp: includes_js_def)

lemma invalid_symptom_iff:
  "(\<not> truthy symptom \<or> \<not> includes_js [JStr ''chestPain'', JStr ''dyspnea''] symptom) =
     (symptom \<noteq> JStr ''chestPain'' \<and> symptom \<noteq> JStr ''dyspnea'')"
  by (cases symptom) (auto simp: includes_js_def)

lemma flag_levels:
  "level AGE_FLAG = ''bad''" "level SEX_FLAG = ''bad''" "level SYMPTOM_FLAG = ''bad''"
  "level LT30_WARN_p0a = ''warn''" "level LT30_BAD_p0a = ''bad''" "level NO_MATCH_p0a = ''bad''"
  "level LT30_WARN_p0b = ''warn''" "level LT30_BAD_p0b = ''bad''" "level NO_MATCH_p0b = ''bad''"
  by (simp_all add: AGE_FLAG_def SEX_FLAG_def SYMPTOM_FLAG_def LT30_WARN_p0a_def LT30_BAD_p0a_def
      NO_MATCH_p0a_def LT30_WARN_p0b_def LT30_BAD_p0b_def NO_MATCH_p0b_def)

lemma ptp_lookup_total:
  "symptom \<in> set [''chestPain'', ''dyspnea''] \<Longrightarrow> sex \<in> set [''men'', ''women''] \<Longrightarrow>
   band \<in> set [''30-39'', ''40-49'', ''50-59'', ''60-69'', ''70+''] \<Longrightarrow>
   \<exists>p. ptp_lookup (JStr symptom) (JStr sex) (JStr band) = Some p \<and> 0 \<le> p \<and> p \<le> 100"
  by (auto simp: ptp_lookup_def PTP_TABLE_def)

text \<open>
  \<^verbatim>\<open>calculatePretestProbability\<close> of the first file of part\_000 by cases: the three
  exits of the function, with the array of flags each one returns.
\<close>

lemma p0a_by_cases:
  "calculatePretestProbability_p0a age sex symptom =
     (if getAgeBand age = JNull \<or> (sex \<noteq> JStr ''men'' \<and> sex \<noteq> JStr ''women'') \<or>
         (symptom \<noteq> JStr ''chestPain'' \<and> symptom \<noteq> JStr ''dyspnea'')
      then PtpFail
             ((if getAgeBand age = JNull then [AGE_FLAG] else []) @
              (if getAgeBand age = JStr ''lt30'' then [LT30_WARN_p0a] else []) @
              (if sex \<noteq> JStr ''men'' \<and> sex \<noteq> JStr ''women'' then [SEX_FLAG] else []) @
              (if symptom \<noteq> JStr ''chestPain'' \<and> symptom \<noteq> JStr ''dyspnea''
               then [SYMPTOM_FLAG] else []))
             (getAgeBand age)
      else if getAgeBand age = JStr ''lt30''
      then PtpFail [LT30_WARN_p0a, LT30_BAD_p0a] (JStr ''lt30'')
      else (case ptp_lookup symptom sex (getAgeBand age) of
              None \<Rightarrow> PtpFail [NO_MATCH_p0a] (getAgeBand age)
            | Some ptp \<Rightarrow>
                PtpOk ptp (LE_SIGN @ showInt ptp @ ''%'')
                  (if ptp \<le> 15 then ''low'' else ''intermediateHigh'') (getAgeBand age) []))"
  unfolding calculatePretestProbability_p0a_def Let_def invalid_sex_iff invalid_symptom_iff
    not_truthy_band
  by (auto simp: flag_levels split: option.splits)

lemma p0b_by_cases:
  "calculatePretestProbability_p0b age sex symptom =
     (if getAgeBand age = JNull \<or> (sex \<noteq> JStr ''men'' \<and> sex \<noteq> JStr ''women'') \<or>
         (symptom \<noteq> JStr ''chestPain'' \<and> symptom \<noteq> JStr ''dyspnea'')
      then ShortFail
             ((if getAgeBand age = JNull then [AGE_FLAG] else []) @
              (if getAgeBand age = JStr ''lt30'' then [LT30_WARN_p0b] else []) @
              (if sex \<noteq> JStr ''men'' \<and> sex \<noteq> JStr ''women'' then [SEX_FLAG] else []) @
              (if symptom \<noteq> JStr ''chestPain'' \<and> symptom \<noteq> JStr ''dyspnea''
               then [SYMPTOM_FLAG] else []))
      else if getAgeBand age = JStr ''lt30''
      then ShortFail [LT30_WARN_p0b, LT30_BAD_p0b]
      else (case ptp_lookup symptom sex (getAgeBand age) of
              None \<Rightarrow> ShortFail [NO_MATCH_p0b]
            | Some ptp \<Rightarrow>
                ShortOk (LE_SIGN @ showInt ptp @ ''%'')
                  (if ptp \<le> 15 then ''low'' else ''intermediateHigh'') []))"
  unfolding calculatePretestProbability_p0b_def Let_def invalid_sex_iff invalid_symptom_iff
    not_truthy_band
  by (auto simp: flag_levels split: option.splits)

lemma p0a_ok_no_flags:
  "calculatePretestProbability_p0a age sex symptom = PtpOk p d c ab fl \<Longrightarrow> fl = []"
  unfolding p0a_by_cases by (auto split: if_splits option.splits)

lemma p0b_ok_no_flags:
  "calculatePretestProbability_p0b age sex symptom = ShortOk d c fl \<Longrightarrow> fl = []"
  unfolding p0b_by_cases by (auto split: if_splits option.splits)

lemma script_no_flags:
  "calculatePretestProbability_script age sex symptom = ShortOk d c fl \<Longrightarrow> fl = []"
  "calculatePretestProbability_script age sex symptom = ShortFail fl \<Longrightarrow> fl = []"
  by (auto simp: calculatePretestProbability_script_def Let_def split: if_splits option.splits)

lemma show_small:
  "showInt 22 = ''22''" "showInt 3 = ''3''" "showInt 16 = ''16''"
  by (simp_all add: showInt_def showNat.simps digit_char_def)

text \<open>
  \<^verbatim>\<open>calculatePretestProbability\<close> of \<^verbatim>\<open>src/script.js\<close> by cases: every failure is
  \<^verbatim>\<open>{ ok: false, flags: [] }\<close>, whether the early return or the missing table entry
  produces it.
\<close>

lemma ptp_lookup_invalid:
  "sex \<noteq> JStr ''men'' \<and> sex \<noteq> JStr ''women'' \<Longrightarrow> ptp_lookup symptom sex ageBand = None"
  "symptom \<noteq> JStr ''chestPain'' \<and> symptom \<noteq> JStr ''dyspnea'' \<Longrightarrow>
     ptp_lookup symptom sex ageBand = None"
  "ptp_lookup symptom sex (JStr ''lt30'') = None"
  "ptp_lookup symptom sex JNull = None"
proof -
  show "ptp_lookup symptom sex ageBand = None"
    if "sex \<noteq> JStr ''men'' \<and> sex \<noteq> JStr ''women''"
    using that
    by (cases symptom; cases sex) (auto simp: ptp_lookup_def PTP_TABLE_def split: option.splits)
  show "ptp_lookup symptom sex ageBand = None"
    if "symptom \<noteq> JStr ''chestPain'' \<and> symptom \<noteq> JStr ''dyspnea''"
    using that by (cases symptom) (auto simp: ptp_lookup_def PTP_TABLE_def)
  show "ptp_lookup symptom sex (JStr ''lt30'') = None"
    by (cases symptom; cases sex) (auto simp: ptp_lookup_def PTP_TABLE_def split: option.splits)
  show "ptp_lookup symptom sex JNull = None"
    by (cases symptom; cases sex) (auto simp: ptp_lookup_def PTP_TABLE_def split: option.splits)
qed

lemma script_by_cases:
  "calculatePretestProbability_script age sex symptom =
     (if getAgeBand age = JNull \<or> getAgeBand age = JStr ''lt30'' \<or>
         (sex \<noteq> JStr ''men'' \<and> sex \<noteq> JStr ''women'') \<or>
         (symptom \<noteq> JStr ''chestPain'' \<and> symptom \<noteq> JStr ''dyspnea'')
      then ShortFail []
      else (case ptp_lookup symptom sex (getAgeBand age) of
              None \<Rightarrow> ShortFail []
            | Some ptp \<Rightarrow>
                ShortOk (LE_SIGN @ showInt ptp @ ''%'')
                  (if ptp \<le> 15 then ''low'' else ''intermediateHigh'') []))"
  unfolding calculatePretestProbability_script_def Let_def not_truthy_band
  by (auto simp: ptp_lookup_invalid split: option.splits)

section \<open>The claims\<close>

text \<open>
  C4. \<^verbatim>\<open>getAgeBand\<close> sends a finite age below 30 to \<open>lt30\<close>, an age in \<open>[30, 39]\<close> to
  \<open>30-39\<close> and so on for each band, an age of 70 or more to \<open>70+\<close>, and a value that is
  not a finite number (NaN, an infinity, a non-number) to null. Every finite age of 30 or
  more is in exactly one of the five bands: the code closes each band at its upper end
  and opens the next right after it, so an age between two decades belongs to the upper
  one (39.5 is in \<open>40-49\<close>).
\<close>

theorem getAgeBand_bands:
  "(a < 30 \<longrightarrow> getAgeBand (JNum (Fin a)) = JStr ''lt30'') \<and>
   (30 \<le> a \<and> a \<le> 39 \<longrightarrow> getAgeBand (JNum (Fin a)) = JStr ''30-39'') \<and>
   (39 < a \<and> a \<le> 49 \<longrightarrow> getAgeBand (JNum (Fin a)) = JStr ''40-49'') \<and>
   (49 < a \<and> a \<le> 59 \<longrightarrow> getAgeBand (JNum (Fin a)) = JStr ''50-59'') \<and>
   (59 < a \<and> a \<le> 69 \<longrightarrow> getAgeBand (JNum (Fin a)) = JStr ''60-69'') \<and>
   (69 < a \<longrightarrow> getAgeBand (JNum (Fin a)) = JStr ''70+'') \<and>
   ((\<forall>r. v \<noteq> JNum (Fin r)) \<longrightarrow> getAgeBand v = JNull) \<and>
   getAgeBand (JNum NaN) = JNull \<and>
   (30 \<le> a \<longrightarrow>
      (\<exists>!b. b \<in> set [''30-39'', ''40-49'', ''50-59'', ''60-69'', ''70+''] \<and>
            getAgeBand (JNum (Fin a)) = JStr b)) \<and>
   getAgeBand (JNum (Fin 39.5)) = JStr ''40-49'' \<and>
   getAgeBand (JNum (Fin 29.9)) = JStr ''lt30'' \<and>
   getAgeBand (JNum (Fin 70)) = JStr ''70+''"
proof -
  have nonfin: "(\<forall>r. v \<noteq> JNum (Fin r)) \<longrightarrow> getAgeBand v = JNull"
    by (cases v rule: getAgeBand.cases) auto
  have one: "30 \<le> a \<longrightarrow>
      (\<exists>!b. b \<in> set [''30-39'', ''40-49'', ''50-59'', ''60-69'', ''70+''] \<and>
            getAgeBand (JNum (Fin a)) = JStr b)"
    by auto
  show ?thesis using nonfin one by simp
qed

theorem getAgeBand_bands_witness:
  "(44::real) < 49 \<and> getAgeBand (JNum (Fin 44)) = JStr ''40-49'' \<and>
   getAgeBand (JStr ''44'') = JNull \<and>
   (\<exists>!b. b \<in> set [''30-39'', ''40-49'', ''50-59'', ''60-69'', ''70+''] \<and>
         getAgeBand (JNum (Fin 44)) = JStr b)"
  using getAgeBand_bands [of 44 "JStr ''44''"] by simp

text \<open>
  C8. The table has an entry for every symptom, sex and age band other than \<open>lt30\<close>, an
  integer from 0 to 100, and none for \<open>lt30\<close>. The table is a constant of the three
  files: no function of theirs assigns to it or to one of its levels, and the embedding
  has it as a constant that every function only reads.
\<close>

theorem PTP_TABLE_total:
  "symptom \<in> set [''chestPain'', ''dyspnea''] \<Longrightarrow> sex \<in> set [''men'', ''women''] \<Longrightarrow>
   (band \<in> set [''30-39'', ''40-49'', ''50-59'', ''60-69'', ''70+''] \<longrightarrow>
      (\<exists>p. ptp_lookup (JStr symptom) (JStr sex) (JStr band) = Some p \<and> 0 \<le> p \<and> p \<le> 100)) \<and>
   ptp_lookup (JStr symptom) (JStr sex) (JStr ''lt30'') = None"
  by (auto simp: ptp_lookup_def PTP_TABLE_def)

theorem PTP_TABLE_total_witness:
  "''dyspnea'' \<in> set [''chestPain'', ''dyspnea''] \<and> ''women'' \<in> set [''men'', ''women''] \<and>
   ''70+'' \<in> set [''30-39'', ''40-49'', ''50-59'', ''60-69'', ''70+''] \<and>
   ptp_lookup (JStr ''dyspnea'') (JStr ''women'') (JStr ''70+'') = Some 12 \<and>
   ptp_lookup (JStr ''dyspnea'') (JStr ''women'') (JStr ''lt30'') = None"
  using PTP_TABLE_total [of "''dyspnea''" "''women''" "''70+''"]
  by (simp add: ptp_lookup_def PTP_TABLE_def)

text \<open>
  C1. For an age whose band is neither null nor \<open>lt30\<close>, a sex among men and women and a
  symptom among chestPain and dyspnea, \<^verbatim>\<open>calculatePretestProbability\<close> returns a success
  in each of the three files, with no flag, the display string made of the sign for
  "at most", the percent of the table in decimal and a percent sign, and the category
  \<open>low\<close> when the percent is at most 15 and \<open>intermediateHigh\<close> otherwise. The success of
  the first file of part\_000 also carries the percent and the age band; the successes
  of \<^verbatim>\<open>src/script.js\<close> and of the second file of part\_000 have neither property. Age 45,
  men, chestPain gives 22 and \<open>intermediateHigh\<close>; age 35, women, dyspnea gives 3 and \<open>low\<close>.
\<close>

theorem calculatePretestProbability_success:
  "(getAgeBand age = JStr band \<and> band \<noteq> ''lt30'' \<and>
    sex \<in> set [''men'', ''women''] \<and> symptom \<in> set [''chestPain'', ''dyspnea''] \<longrightarrow>
      (\<exists>p. ptp_lookup (JStr symptom) (JStr sex) (JStr band) = Some p \<and>
           calculatePretestProbability_p0a age (JStr sex) (JStr symptom) =
             PtpOk p (LE_SIGN @ showInt p @ ''%'')
               (if p \<le> 15 then ''low'' else ''intermediateHigh'') (JStr band) [] \<and>
           calculatePretestProbability_p0b age (JStr sex) (JStr symptom) =
             ShortOk (LE_SIGN @ showInt p @ ''%'')
               (if p \<le> 15 then ''low'' else ''intermediateHigh'') [] \<and>
           calculatePretestProbability_script age (JStr sex) (JStr symptom) =
             ShortOk (LE_SIGN @ showInt p @ ''%'')
               (if p \<le> 15 then ''low'' else ''intermediateHigh'') [])) \<and>
   ptpPercent_short (calculatePretestProbability_p0b age (JStr sex) (JStr symptom)) = None \<and>
   ageBand_short (calculatePretestProbability_p0b age (JStr sex) (JStr symptom)) = None \<and>
   ptpPercent_short (calculatePretestProbability_script age (JStr sex) (JStr symptom)) = None \<and>
   ageBand_short (calculatePretestProbability_script age (JStr sex) (JStr symptom)) = None \<and>
   calculatePretestProbability_p0a (JNum (Fin 45)) (JStr ''men'') (JStr ''chestPain'') =
     PtpOk 22 (LE_SIGN @ ''22%'') ''intermediateHigh'' (JStr ''40-49'') [] \<and>
   calculatePretestProbability_p0a (JNum (Fin 35)) (JStr ''women'') (JStr ''dyspnea'') =
     PtpOk 3 (LE_SIGN @ ''3%'') ''low'' (JStr ''30-39'') [] \<and>
   calculatePretestProbability_p0b (JNum (Fin 45)) (JStr ''men'') (JStr ''chestPain'') =
     ShortOk (LE_SIGN @ ''22%'') ''intermediateHigh'' [] \<and>
   calculatePretestProbability_p0b (JNum (Fin 35)) (JStr ''women'') (JStr ''dyspnea'') =
     ShortOk (LE_SIGN @ ''3%'') ''low'' [] \<and>
   calculatePretestProbability_script (JNum (Fin 45)) (JStr ''men'') (JStr ''chestPain'') =
     ShortOk (LE_SIGN @ ''22%'') ''intermediateHigh'' [] \<and>
   calculatePretestProbability_script (JNum (Fin 35)) (JStr ''women'') (JStr ''dyspnea'') =
     ShortOk (LE_SIGN @ ''3%'') ''low'' [] \<and>
   LE_SIGN = [CHR 0xE2, CHR 0x89, CHR 0xA4]"
proof -
  have general:
    "getAgeBand age = JStr band \<and> band \<noteq> ''lt30'' \<and>
     sex \<in> set [''men'', ''women''] \<and> symptom \<in> set [''chestPain'', ''dyspnea''] \<longrightarrow>
      (\<exists>p. ptp_lookup (JStr symptom) (JStr sex) (JStr band) = Some p \<and>
           calculatePretestProbability_p0a age (JStr sex) (JStr symptom) =
             PtpOk p (LE_SIGN @ showInt p @ ''%'')
               (if p \<le> 15 then ''low'' else ''intermediateHigh'') (JStr band) [] \<and>
           calculatePretestProbability_p0b age (JStr sex) (JStr symptom) =
             ShortOk (LE_SIGN @ showInt p @ ''%'')
               (if p \<le> 15 then ''low'' else ''intermediateHigh'') [] \<and>
           calculatePretestProbability_script age (JStr sex) (JStr symptom) =
             ShortOk (LE_SIGN @ showInt p @ ''%'')
               (if p \<le> 15 then ''low'' else ''intermediateHigh'') [])"
  proof
    assume h: "getAgeBand age = JStr band \<and> band \<noteq> ''lt30'' \<and>
      sex \<in> set [''men'', ''women''] \<and> symptom \<in> set [''chestPain'', ''dyspnea'']"
    then have "band \<in> set [''30-39'', ''40-49'', ''50-59'', ''60-69'', ''70+'']"
      using getAgeBand_null_or_band [of age] by auto
    with h obtain p where p: "ptp_lookup (JStr symptom) (JStr sex) (JStr band) = Some p"
      using ptp_lookup_total [of symptom sex band] by blast
    have a: "calculatePretestProbability_p0a age (JStr sex) (JStr symptom) =
        PtpOk p (LE_SIGN @ showInt p @ ''%'')
          (if p \<le> 15 then ''low'' else ''intermediateHigh'') (JStr band) []"
      unfolding p0a_by_cases using h p by auto
    have b: "calculatePretestProbability_p0b age (JStr sex) (JStr symptom) =
        ShortOk (LE_SIGN @ showInt p @ ''%'')
          (if p \<le> 15 then ''low'' else ''intermediateHigh'') []"
      unfolding p0b_by_cases using h p by auto
    have c: "calculatePretestProbability_script age (JStr sex) (JStr symptom) =
        ShortOk (LE_SIGN @ showInt p @ ''%'')
          (if p \<le> 15 then ''low'' else ''intermediateHigh'') []"
      unfolding script_by_cases using h p by auto
    from p a b c show "\<exists>p. ptp_lookup (JStr symptom) (JStr sex) (JStr band) = Some p \<and>
           calculatePretestProbability_p0a age (JStr sex) (JStr symptom) =
             PtpOk p (LE_SIGN @ showInt p @ ''%'')
               (if p \<le> 15 then ''low'' else ''intermediateHigh'') (JStr band) [] \<and>
           calculatePretestProbability_p0b age (JStr sex) (JStr symptom) =
             ShortOk (LE_SIGN @ showInt p @ ''%'')
               (if p \<le> 15 then ''low'' else ''intermediateHigh'') [] \<and>
           calculatePretestProbability_script age (JStr sex) (JStr symptom) =
             ShortOk (LE_SIGN @ showInt p @ ''%'')
               (if p \<le> 15 then ''low'' else ''intermediateHigh'') []"
      by blast
  qed
  have absent:
    "ptpPercent_short (calculatePretestProbability_p0b age (JStr sex) (JStr symptom)) = None"
    "ageBand_short (calculatePretestProbability_p0b age (JStr sex) (JStr symptom)) = None"
    "ptpPercent_short (calculatePretestProbability_script age (JStr sex) (JStr symptom)) = None"
    "ageBand_short (calculatePretestProbability_script age (JStr sex) (JStr symptom)) = None"
    by (cases "calculatePretestProbability_p0b age (JStr sex) (JStr symptom)";
        cases "calculatePretestProbability_script age (JStr sex) (JStr symptom)"; simp)+
  have at_45:
    "calculatePretestProbability_p0a (JNum (Fin 45)) (JStr ''men'') (JStr ''chestPain'') =
       PtpOk 22 (LE_SIGN @ ''22%'') ''intermediateHigh'' (JStr ''40-49'') []"
    "calculatePretestProbability_p0b (JNum (Fin 45)) (JStr ''men'') (JStr ''chestPain'') =
       ShortOk (LE_SIGN @ ''22%'') ''intermediateHigh'' []"
    "calculatePretestProbability_script (JNum (Fin 45)) (JStr ''men'') (JStr ''chestPain'') =
       ShortOk (LE_SIGN @ ''22%'') ''intermediateHigh'' []"
    unfolding p0a_by_cases p0b_by_cases script_by_cases
    by (simp_all add: ptp_lookup_def PTP_TABLE_def show_small)
  have at_35:
    "calculatePretestProbability_p0a (JNum (Fin 35)) (JStr ''women'') (JStr ''dyspnea'') =
       PtpOk 3 (LE_SIGN @ ''3%'') ''low'' (JStr ''30-39'') []"
    "calculatePretestProbability_p0b (JNum (Fin 35)) (JStr ''women'') (JStr ''dyspnea'') =
       ShortOk (LE_SIGN @ ''3%'') ''low'' []"
    "calculatePretestProbability_script (JNum (Fin 35)) (JStr ''women'') (JStr ''dyspnea'') =
       ShortOk (LE_SIGN @ ''3%'') ''low'' []"
    unfolding p0a_by_cases p0b_by_cases script_by_cases
    by (simp_all add: ptp_lookup_def PTP_TABLE_def show_small)
  from general absent at_45 at_35 LE_SIGN_def show ?thesis by blast
qed

theorem calculatePretestProbability_success_witness:
  "getAgeBand (JNum (Fin 62)) = JStr ''60-69'' \<and> ''60-69'' \<noteq> ''lt30'' \<and>
   ''women'' \<in> set [''men'', ''women''] \<and> ''chestPain'' \<in> set [''chestPain'', ''dyspnea''] \<and>
   ptp_lookup (JStr ''chestPain'') (JStr ''women'') (JStr ''60-69'') = Some 16 \<and>
   calculatePretestProbability_p0a (JNum (Fin 62)) (JStr ''women'') (JStr ''chestPain'') =
     PtpOk 16 (LE_SIGN @ ''16%'') ''intermediateHigh'' (JStr ''60-69'') [] \<and>
   calculatePretestProbability_p0b (JNum (Fin 62)) (JStr ''women'') (JStr ''chestPain'') =
     ShortOk (LE_SIGN @ ''16%'') ''intermediateHigh'' [] \<and>
   calculatePretestProbability_script (JNum (Fin 62)) (JStr ''women'') (JStr ''chestPain'') =
     ShortOk (LE_SIGN @ ''16%'') ''intermediateHigh'' []"
  using calculatePretestProbability_success [of "JNum (Fin 62)" "''60-69''" "''women''" "''chestPain''"]
  by (simp add: ptp_lookup_def PTP_TABLE_def show_small)

text \<open>
  The claim as the spec words it fails on \<^verbatim>\<open>src/script.js\<close>: at age 45, men, chestPain
  the success object is \<^verbatim>\<open>{ ok: true, ptpDisplay, category, flags }\<close>, and reading its
  percent or its age band gives undefined.
\<close>

theorem script_success_without_percent_and_band:
  "calculatePretestProbability_script (JNum (Fin 45)) (JStr ''men'') (JStr ''chestPain'') =
     ShortOk ([CHR 0xE2, CHR 0x89, CHR 0xA4] @ ''22%'') ''intermediateHigh'' [] \<and>
   ptpPercent_short
     (calculatePretestProbability_script (JNum (Fin 45)) (JStr ''men'') (JStr ''chestPain'')) = None \<and>
   ageBand_short
     (calculatePretestProbability_script (JNum (Fin 45)) (JStr ''men'') (JStr ''chestPain'')) = None \<and>
   ptpPercent_of
     (calculatePretestProbability_p0a (JNum (Fin 45)) (JStr ''men'') (JStr ''chestPain'')) = Some 22 \<and>
   ageBand_of
     (calculatePretestProbability_p0a (JNum (Fin 45)) (JStr ''men'') (JStr ''chestPain'')) =
       Some (JStr ''40-49'')"
  unfolding p0a_by_cases script_by_cases
  by (simp add: ptp_lookup_def PTP_TABLE_def show_small LE_SIGN_def)

text \<open>
  C3. In the two files of part\_000 the validation runs its four checks one after the
  other and only then decides: when the age band is null, or the sex or the symptom is
  not one of its two values, the failure carries, in this order, the bad flag of the age
  when the band is null, the warning when the band is \<open>lt30\<close>, the bad flag of the sex
  when the sex is invalid and the bad flag of the symptom when the symptom is invalid.
  Every failure, the one for an age below 30 included, holds each of these flags that
  applies. With an invalid sex the result is a failure whose flags hold the bad flag
  "Sex is required.", whatever the age and the symptom are, and so at age 50 with
  dyspnea. \<^verbatim>\<open>src/script.js\<close> has no flags: it returns \<^verbatim>\<open>{ ok: false, flags: [] }\<close> for
  every input it rejects.
\<close>

theorem validation_collects_every_flag:
  "(getAgeBand age = JNull \<or> (sex \<noteq> JStr ''men'' \<and> sex \<noteq> JStr ''women'') \<or>
      (symptom \<noteq> JStr ''chestPain'' \<and> symptom \<noteq> JStr ''dyspnea'') \<longrightarrow>
    calculatePretestProbability_p0a age sex symptom =
      PtpFail
        ((if getAgeBand age = JNull then [AGE_FLAG] else []) @
         (if getAgeBand age = JStr ''lt30'' then [LT30_WARN_p0a] else []) @
         (if sex \<noteq> JStr ''men'' \<and> sex \<noteq> JStr ''women'' then [SEX_FLAG] else []) @
         (if symptom \<noteq> JStr ''chestPain'' \<and> symptom \<noteq> JStr ''dyspnea''
          then [SYMPTOM_FLAG] else []))
        (getAgeBand age) \<and>
    calculatePretestProbability_p0b age sex symptom =
      ShortFail
        ((if getAgeBand age = JNull then [AGE_FLAG] else []) @
         (if getAgeBand age = JStr ''lt30'' then [LT30_WARN_p0b] else []) @
         (if sex \<noteq> JStr ''men'' \<and> sex \<noteq> JStr ''women'' then [SEX_FLAG] else []) @
         (if symptom \<noteq> JStr ''chestPain'' \<and> symptom \<noteq> JStr ''dyspnea''
          then [SYMPTOM_FLAG] else [])) \<and>
    calculatePretestProbability_script age sex symptom = ShortFail []) \<and>
   (calculatePretestProbability_p0a age sex symptom = PtpFail fl ab \<longrightarrow>
      (getAgeBand age = JNull \<longrightarrow> AGE_FLAG \<in> set fl) \<and>
      (getAgeBand age = JStr ''lt30'' \<longrightarrow> LT30_WARN_p0a \<in> set fl) \<and>
      (sex \<noteq> JStr ''men'' \<and> sex \<noteq> JStr ''women'' \<longrightarrow> SEX_FLAG \<in> set fl) \<and>
      (symptom \<noteq> JStr ''chestPain'' \<and> symptom \<noteq> JStr ''dyspnea'' \<longrightarrow>
         SYMPTOM_FLAG \<in> set fl)) \<and>
   (calculatePretestProbability_p0b age sex symptom = ShortFail fl \<longrightarrow>
      (getAgeBand age = JNull \<longrightarrow> AGE_FLAG \<in> set fl) \<and>
      (getAgeBand age = JStr ''lt30'' \<longrightarrow> LT30_WARN_p0b \<in> set fl) \<and>
      (sex \<noteq> JStr ''men'' \<and> sex \<noteq> JStr ''women'' \<longrightarrow> SEX_FLAG \<in> set fl) \<and>
      (symptom \<noteq> JStr ''chestPain'' \<and> symptom \<noteq> JStr ''dyspnea'' \<longrightarrow>
         SYMPTOM_FLAG \<in> set fl)) \<and>
   (calculatePretestProbability_script age sex symptom = ShortFail fl \<longrightarrow> fl = []) \<and>
   (sex \<noteq> JStr ''men'' \<and> sex \<noteq> JStr ''women'' \<longrightarrow>
      (\<exists>fl ab. calculatePretestProbability_p0a age sex symptom = PtpFail fl ab \<and>
               SEX_FLAG \<in> set fl) \<and>
      (\<exists>fl. calculatePretestProbability_p0b age sex symptom = ShortFail fl \<and>
            SEX_FLAG \<in> set fl) \<and>
      calculatePretestProbability_p0a (JNum (Fin 50)) sex (JStr ''dyspnea'') =
        PtpFail [SEX_FLAG] (JStr ''50-59'') \<and>
      calculatePretestProbability_p0b (JNum (Fin 50)) sex (JStr ''dyspnea'') =
        ShortFail [SEX_FLAG]) \<and>
   AGE_FLAG = \<lparr>level = ''bad'', msg = ''Age is required and must be a number.''\<rparr> \<and>
   level LT30_WARN_p0a = ''warn'' \<and> level LT30_WARN_p0b = ''warn'' \<and>
   SEX_FLAG = \<lparr>level = ''bad'', msg = ''Sex is required.''\<rparr> \<and>
   SYMPTOM_FLAG = \<lparr>level = ''bad'', msg = ''Symptom selection is required.''\<rparr>"
proof -
  have all_flags:
    "getAgeBand age = JNull \<or> (sex \<noteq> JStr ''men'' \<and> sex \<noteq> JStr ''women'') \<or>
      (symptom \<noteq> JStr ''chestPain'' \<and> symptom \<noteq> JStr ''dyspnea'') \<longrightarrow>
    calculatePretestProbability_p0a age sex symptom =
      PtpFail
        ((if getAgeBand age = JNull then [AGE_FLAG] else []) @
         (if getAgeBand age = JStr ''lt30'' then [LT30_WARN_p0a] else []) @
         (if sex \<noteq> JStr ''men'' \<and> sex \<noteq> JStr ''women'' then [SEX_FLAG] else []) @
         (if symptom \<noteq> JStr ''chestPain'' \<and> symptom \<noteq> JStr ''dyspnea''
          then [SYMPTOM_FLAG] else []))
        (getAgeBand age) \<and>
    calculatePretestProbability_p0b age sex symptom =
      ShortFail
        ((if getAgeBand age = JNull then [AGE_FLAG] else []) @
         (if getAgeBand age = JStr ''lt30'' then [LT30_WARN_p0b] else []) @
         (if sex \<noteq> JStr ''men'' \<and> sex \<noteq> JStr ''women'' then [SEX_FLAG] else []) @
         (if symptom \<noteq> JStr ''chestPain'' \<and> symptom \<noteq> JStr ''dyspnea''
          then [SYMPTOM_FLAG] else [])) \<and>
    calculatePretestProbability_script age sex symptom = ShortFail []"
    unfolding p0a_by_cases p0b_by_cases script_by_cases by simp
  have every_failure_a:
    "calculatePretestProbability_p0a age sex symptom = PtpFail fl ab \<longrightarrow>
      (getAgeBand age = JNull \<longrightarrow> AGE_FLAG \<in> set fl) \<and>
      (getAgeBand age = JStr ''lt30'' \<longrightarrow> LT30_WARN_p0a \<in> set fl) \<and>
      (sex \<noteq> JStr ''men'' \<and> sex \<noteq> JStr ''women'' \<longrightarrow> SEX_FLAG \<in> set fl) \<and>
      (symptom \<noteq> JStr ''chestPain'' \<and> symptom \<noteq> JStr ''dyspnea'' \<longrightarrow>
         SYMPTOM_FLAG \<in> set fl)"
    unfolding p0a_by_cases by (auto split: if_splits option.splits)
  have every_failure_b:
    "calculatePretestProbability_p0b age sex symptom = ShortFail fl \<longrightarrow>
      (getAgeBand age = JNull \<longrightarrow> AGE_FLAG \<in> set fl) \<and>
      (getAgeBand age = JStr ''lt30'' \<longrightarrow> LT30_WARN_p0b \<in> set fl) \<and>
      (sex \<noteq> JStr ''men'' \<and> sex \<noteq> JStr ''women'' \<longrightarrow> SEX_FLAG \<in> set fl) \<and>
      (symptom \<noteq> JStr ''chestPain'' \<and> symptom \<noteq> JStr ''dyspnea'' \<longrightarrow>
         SYMPTOM_FLAG \<in> set fl)"
    unfolding p0b_by_cases by (auto split: if_splits option.splits)
  have every_failure_s:
    "calculatePretestProbability_script age sex symptom = ShortFail fl \<longrightarrow> fl = []"
    using script_no_flags(2) [of age sex symptom fl] by blast
  have any_age:
    "sex \<noteq> JStr ''men'' \<and> sex \<noteq> JStr ''women'' \<longrightarrow>
      (\<exists>fl ab. calculatePretestProbability_p0a age sex symptom = PtpFail fl ab \<and>
               SEX_FLAG \<in> set fl) \<and>
      (\<exists>fl. calculatePretestProbability_p0b age sex symptom = ShortFail fl \<and>
            SEX_FLAG \<in> set fl)"
    unfolding p0a_by_cases p0b_by_cases by simp
  have fifty:
    "sex \<noteq> JStr ''men'' \<and> sex \<noteq> JStr ''women'' \<longrightarrow>
      calculatePretestProbability_p0a (JNum (Fin 50)) sex (JStr ''dyspnea'') =
        PtpFail [SEX_FLAG] (JStr ''50-59'') \<and>
      calculatePretestProbability_p0b (JNum (Fin 50)) sex (JStr ''dyspnea'') =
        ShortFail [SEX_FLAG]"
    unfolding p0a_by_cases p0b_by_cases by simp
  have texts:
    "AGE_FLAG = \<lparr>level = ''bad'', msg = ''Age is required and must be a number.''\<rparr>"
    "level LT30_WARN_p0a = ''warn''" "level LT30_WARN_p0b = ''warn''"
    "SEX_FLAG = \<lparr>level = ''bad'', msg = ''Sex is required.''\<rparr>"
    "SYMPTOM_FLAG = \<lparr>level = ''bad'', msg = ''Symptom selection is required.''\<rparr>"
    by (simp_all add: AGE_FLAG_def SEX_FLAG_def SYMPTOM_FLAG_def flag_levels)
  from all_flags every_failure_a every_failure_b every_failure_s any_age fifty texts
  show ?thesis by blast
qed

theorem validation_collects_every_flag_witness:
  "getAgeBand (JNum NaN) = JNull \<and> JStr [] \<noteq> JStr ''men'' \<and> JStr [] \<noteq> JStr ''women'' \<and>
   JStr ''cough'' \<noteq> JStr ''chestPain'' \<and> JStr ''cough'' \<noteq> JStr ''dyspnea'' \<and>
   calculatePretestProbability_p0a (JNum NaN) (JStr []) (JStr ''cough'') =
     PtpFail [AGE_FLAG, SEX_FLAG, SYMPTOM_FLAG] JNull \<and>
   calculatePretestProbability_p0b (JNum NaN) (JStr []) (JStr ''cough'') =
     ShortFail [AGE_FLAG, SEX_FLAG, SYMPTOM_FLAG] \<and>
   calculatePretestProbability_script (JNum NaN) (JStr []) (JStr ''cough'') = ShortFail [] \<and>
   calculatePretestProbability_p0a (JNum (Fin 50)) (JStr []) (JStr ''dyspnea'') =
     PtpFail [SEX_FLAG] (JStr ''50-59'') \<and>
   calculatePretestProbability_p0b (JNum (Fin 50)) (JStr []) (JStr ''dyspnea'') =
     ShortFail [SEX_FLAG]"
  using validation_collects_every_flag
    [where age = "JNum NaN" and sex = "JStr []" and symptom = "JStr ''cough''"
       and fl = "[AGE_FLAG, SEX_FLAG, SYMPTOM_FLAG]" and ab = JNull]
  by simp

text \<open>
  The claim as the spec words it fails on \<^verbatim>\<open>src/script.js\<close>: at age 50 with dyspnea
  and the sex empty or left out, the failure has no flag, so none for the sex.
\<close>

theorem script_reports_no_sex_flag:
  "calculatePretestProbability_script (JNum (Fin 50)) (JStr []) (JStr ''dyspnea'') = ShortFail [] \<and>
   calculatePretestProbability_script (JNum (Fin 50)) JUndefined (JStr ''dyspnea'') = ShortFail [] \<and>
   SEX_FLAG \<notin> set []"
  by (simp add: calculatePretestProbability_script_def)

text \<open>
  C5. In the two files of part\_000, for a finite age below 30 with a valid sex and a
  valid symptom the function first pushes the warning that the table begins at 30 to 39
  and then returns a failure with one more flag, the bad flag that no table value is
  available below 30. Age 25, men, chestPain is such a failure. \<^verbatim>\<open>src/script.js\<close>
  returns a failure with no flag for the same inputs.
\<close>

theorem below_30_warns_then_fails:
  "(a < 30 \<and> sex \<in> set [''men'', ''women''] \<and> symptom \<in> set [''chestPain'', ''dyspnea''] \<longrightarrow>
      calculatePretestProbability_p0a (JNum (Fin a)) (JStr sex) (JStr symptom) =
        PtpFail [LT30_WARN_p0a, LT30_BAD_p0a] (JStr ''lt30'') \<and>
      calculatePretestProbability_p0b (JNum (Fin a)) (JStr sex) (JStr symptom) =
        ShortFail [LT30_WARN_p0b, LT30_BAD_p0b] \<and>
      calculatePretestProbability_script (JNum (Fin a)) (JStr sex) (JStr symptom) =
        ShortFail []) \<and>
   calculatePretestProbability_p0a (JNum (Fin 25)) (JStr ''men'') (JStr ''chestPain'') =
     PtpFail [LT30_WARN_p0a, LT30_BAD_p0a] (JStr ''lt30'') \<and>
   calculatePretestProbability_p0b (JNum (Fin 25)) (JStr ''men'') (JStr ''chestPain'') =
     ShortFail [LT30_WARN_p0b, LT30_BAD_p0b] \<and>
   LT30_WARN_p0a = \<lparr>level = ''warn'',
     msg = ''Age <30: the provided figure table begins at 30'' @ [CHR 0xE2, CHR 0x80, CHR 0x93] @
           ''39. Result may not be applicable.''\<rparr> \<and>
   LT30_BAD_p0a = \<lparr>level = ''bad'',
     msg = ''No table value available for age <30 from the provided figure. Cannot compute.''\<rparr> \<and>
   LT30_WARN_p0b = \<lparr>level = ''warn'',
     msg = ''Age <30: figure table begins at 30'' @ [CHR 0xE2, CHR 0x80, CHR 0x93] @
           ''39; not applicable.''\<rparr> \<and>
   LT30_BAD_p0b = \<lparr>level = ''bad'',
     msg = ''No table value for age <30 from the provided figure.''\<rparr>"
proof -
  have general:
    "a < 30 \<and> sex \<in> set [''men'', ''women''] \<and> symptom \<in> set [''chestPain'', ''dyspnea''] \<longrightarrow>
      calculatePretestProbability_p0a (JNum (Fin a)) (JStr sex) (JStr symptom) =
        PtpFail [LT30_WARN_p0a, LT30_BAD_p0a] (JStr ''lt30'') \<and>
      calculatePretestProbability_p0b (JNum (Fin a)) (JStr sex) (JStr symptom) =
        ShortFail [LT30_WARN_p0b, LT30_BAD_p0b] \<and>
      calculatePretestProbability_script (JNum (Fin a)) (JStr sex) (JStr symptom) =
        ShortFail []"
    unfolding p0a_by_cases p0b_by_cases script_by_cases by auto
  have at_25:
    "calculatePretestProbability_p0a (JNum (Fin 25)) (JStr ''men'') (JStr ''chestPain'') =
       PtpFail [LT30_WARN_p0a, LT30_BAD_p0a] (JStr ''lt30'')"
    "calculatePretestProbability_p0b (JNum (Fin 25)) (JStr ''men'') (JStr ''chestPain'') =
       ShortFail [LT30_WARN_p0b, LT30_BAD_p0b]"
    unfolding p0a_by_cases p0b_by_cases by simp_all
  from general at_25 show ?thesis
    by (simp add: LT30_WARN_p0a_def LT30_BAD_p0a_def LT30_WARN_p0b_def LT30_BAD_p0b_def
        EN_DASH_def)
qed

theorem below_30_warns_then_fails_witness:
  "(12.5::real) < 30 \<and> ''women'' \<in> set [''men'', ''women''] \<and>
   ''dyspnea'' \<in> set [''chestPain'', ''dyspnea''] \<and>
   calculatePretestProbability_p0a (JNum (Fin 12.5)) (JStr ''women'') (JStr ''dyspnea'') =
     PtpFail [LT30_WARN_p0a, LT30_BAD_p0a] (JStr ''lt30'') \<and>
   calculatePretestProbability_p0b (JNum (Fin 12.5)) (JStr ''women'') (JStr ''dyspnea'') =
     ShortFail [LT30_WARN_p0b, LT30_BAD_p0b] \<and>
   calculatePretestProbability_script (JNum (Fin 12.5)) (JStr ''women'') (JStr ''dyspnea'') =
     ShortFail []"
  using below_30_warns_then_fails [of "12.5" "''women''" "''dyspnea''"]
  by simp

text \<open>
  The claim as the spec words it fails on \<^verbatim>\<open>src/script.js\<close>: age 25, men, chestPain is
  a failure there with an empty list of flags, so with neither the warning nor a bad flag.
\<close>

theorem script_below_30_has_no_flag:
  "calculatePretestProbability_script (JNum (Fin 25)) (JStr ''men'') (JStr ''chestPain'') =
     ShortFail [] \<and>
   \<not> list_ex (\<lambda>f. level f = ''bad'') ([] :: flag list) \<and>
   \<not> list_ex (\<lambda>f. level f = ''warn'') ([] :: flag list)"
  by (simp add: calculatePretestProbability_script_def ptp_lookup_def PTP_TABLE_def)

text \<open>
  C7. A success never comes with a bad flag: in each of the three files, the flags of a
  success object hold no flag of level \<open>bad\<close>.
\<close>

theorem success_has_no_bad_flag:
  "(calculatePretestProbability_p0a age sex symptom = PtpOk p d c ab fl \<longrightarrow>
      \<not> list_ex (\<lambda>f. level f = ''bad'') fl) \<and>
   (calculatePretestProbability_p0b age sex symptom = ShortOk d c fl \<longrightarrow>
      \<not> list_ex (\<lambda>f. level f = ''bad'') fl) \<and>
   (calculatePretestProbability_script age sex symptom = ShortOk d c fl \<longrightarrow>
      \<not> list_ex (\<lambda>f. level f = ''bad'') fl)"
  using p0a_ok_no_flags [of age sex symptom p d c ab fl]
    p0b_ok_no_flags [of age sex symptom d c fl]
    script_no_flags(1) [of age sex symptom d c fl]
  by auto

theorem success_has_no_bad_flag_witness:
  "calculatePretestProbability_p0a (JNum (Fin 45)) (JStr ''men'') (JStr ''chestPain'') =
     PtpOk 22 (LE_SIGN @ ''22%'') ''intermediateHigh'' (JStr ''40-49'') [] \<and>
   calculatePretestProbability_p0b (JNum (Fin 45)) (JStr ''men'') (JStr ''chestPain'') =
     ShortOk (LE_SIGN @ ''22%'') ''intermediateHigh'' [] \<and>
   calculatePretestProbability_script (JNum (Fin 45)) (JStr ''men'') (JStr ''chestPain'') =
     ShortOk (LE_SIGN @ ''22%'') ''intermediateHigh'' [] \<and>
   \<not> list_ex (\<lambda>f. level f = ''bad'') ([] :: flag list)"
  using success_has_no_bad_flag [of "JNum (Fin 45)" "JStr ''men''" "JStr ''chestPain''"
      22 "LE_SIGN @ ''22%''" "''intermediateHigh''" "JStr ''40-49''" "[]"]
  by (simp add: p0a_by_cases p0b_by_cases calculatePretestProbability_script_def
      ptp_lookup_def PTP_TABLE_def show_small)

text \<open>
  C9. Every failure of \<^verbatim>\<open>calculatePretestProbability\<close> in the first file of part\_000
  reports the age band the function computed, next to its flags, of which one at least
  is bad; when the age is a finite number the band reported is one of the six band names.
  The failures of \<^verbatim>\<open>src/script.js\<close> and of the second file of part\_000 are
  \<^verbatim>\<open>{ ok: false, flags }\<close>: they report no age band.
\<close>

theorem failure_reports_age_band:
  "(calculatePretestProbability_p0a age sex symptom = PtpFail fl ab \<longrightarrow>
      ab = getAgeBand age \<and> list_ex (\<lambda>f. level f = ''bad'') fl \<and>
      ageBand_of (calculatePretestProbability_p0a age sex symptom) = Some (getAgeBand age) \<and>
      (age = JNum (Fin a) \<longrightarrow>
         (\<exists>b. ab = JStr b \<and>
              b \<in> set [''lt30'', ''30-39'', ''40-49'', ''50-59'', ''60-69'', ''70+'']))) \<and>
   ageBand_short (calculatePretestProbability_p0b age sex symptom) = None \<and>
   ageBand_short (calculatePretestProbability_script age sex symptom) = None"
proof -
  have p0a: "ab = getAgeBand age \<and> list_ex (\<lambda>f. level f = ''bad'') fl \<and>
      ageBand_of (calculatePretestProbability_p0a age sex symptom) = Some (getAgeBand age) \<and>
      (age = JNum (Fin a) \<longrightarrow>
         (\<exists>b. ab = JStr b \<and>
              b \<in> set [''lt30'', ''30-39'', ''40-49'', ''50-59'', ''60-69'', ''70+'']))"
    if f: "calculatePretestProbability_p0a age sex symptom = PtpFail fl ab"
  proof -
    from f have ab: "ab = getAgeBand age"
      unfolding p0a_by_cases by (auto split: if_splits option.splits)
    from f have bad: "list_ex (\<lambda>f. level f = ''bad'') fl"
      unfolding p0a_by_cases by (auto simp: flag_levels split: if_splits option.splits)
    have band: "age = JNum (Fin a) \<longrightarrow>
        (\<exists>b. getAgeBand age = JStr b \<and>
             b \<in> set [''lt30'', ''30-39'', ''40-49'', ''50-59'', ''60-69'', ''70+''])"
      by auto
    from f ab bad band show ?thesis by simp
  qed
  have short:
    "ageBand_short (calculatePretestProbability_p0b age sex symptom) = None"
    "ageBand_short (calculatePretestProbability_script age sex symptom) = None"
    by (cases "calculatePretestProbability_p0b age sex symptom";
        cases "calculatePretestProbability_script age sex symptom"; simp)+
  from p0a short show ?thesis by blast
qed

theorem failure_reports_age_band_witness:
  "calculatePretestProbability_p0a (JNum (Fin 50)) JUndefined (JStr ''dyspnea'') =
     PtpFail [SEX_FLAG] (JStr ''50-59'') \<and>
   JStr ''50-59'' = getAgeBand (JNum (Fin 50)) \<and>
   list_ex (\<lambda>f. level f = ''bad'') [SEX_FLAG] \<and>
   ageBand_of (calculatePretestProbability_p0a (JNum (Fin 50)) JUndefined (JStr ''dyspnea'')) =
     Some (JStr ''50-59'')"
proof -
  have f: "calculatePretestProbability_p0a (JNum (Fin 50)) JUndefined (JStr ''dyspnea'') =
     PtpFail [SEX_FLAG] (JStr ''50-59'')"
    unfolding p0a_by_cases by simp
  from failure_reports_age_band
    [where age = "JNum (Fin 50)" and sex = JUndefined and symptom = "JStr ''dyspnea''"
       and fl = "[SEX_FLAG]" and ab = "JStr ''50-59''" and a = 50] f
  show ?thesis by simp
qed

text \<open>
  The claim as the spec words it fails on \<^verbatim>\<open>src/script.js\<close> and on the second file of
  part\_000: at age 50 the band \<open>50-59\<close> is computed, and with the sex left out the failure
  of either file has no age band to read.
\<close>

theorem short_failure_without_age_band:
  "getAgeBand (JNum (Fin 50)) = JStr ''50-59'' \<and>
   calculatePretestProbability_script (JNum (Fin 50)) JUndefined (JStr ''dyspnea'') =
     ShortFail [] \<and>
   ageBand_short
     (calculatePretestProbability_script (JNum (Fin 50)) JUndefined (JStr ''dyspnea'')) = None \<and>
   calculatePretestProbability_p0b (JNum (Fin 50)) JUndefined (JStr ''dyspnea'') =
     ShortFail [SEX_FLAG] \<and>
   ageBand_short
     (calculatePretestProbability_p0b (JNum (Fin 50)) JUndefined (JStr ''dyspnea'')) = None"
  unfolding p0b_by_cases script_by_cases by simp

text \<open>
  C10. The flags of a success are the empty list, in each of the three files: the only
  flag that is not bad, the warning for an age below 30, is pushed only when the band is
  \<open>lt30\<close>, and that band never reaches the success exit.
\<close>

theorem success_flags_empty:
  "(calculatePretestProbability_p0a age sex symptom = PtpOk p d c ab fl \<longrightarrow> fl = []) \<and>
   (calculatePretestProbability_p0b age sex symptom = ShortOk d c fl \<longrightarrow> fl = []) \<and>
   (calculatePretestProbability_script age sex symptom = ShortOk d c fl \<longrightarrow> fl = [])"
  using p0a_ok_no_flags [of age sex symptom p d c ab fl]
    p0b_ok_no_flags [of age sex symptom d c fl]
    script_no_flags(1) [of age sex symptom d c fl]
  by auto

theorem success_flags_empty_witness:
  "calculatePretestProbability_p0a (JNum (Fin 35)) (JStr ''women'') (JStr ''dyspnea'') =
     PtpOk 3 (LE_SIGN @ ''3%'') ''low'' (JStr ''30-39'') [] \<and>
   calculatePretestProbability_p0b (JNum (Fin 35)) (JStr ''women'') (JStr ''dyspnea'') =
     ShortOk (LE_SIGN @ ''3%'') ''low'' [] \<and>
   calculatePretestProbability_script (JNum (Fin 35)) (JStr ''women'') (JStr ''dyspnea'') =
     ShortOk (LE_SIGN @ ''3%'') ''low'' []"
  using success_flags_empty [of "JNum (Fin 35)" "JStr ''women''" "JStr ''dyspnea''"
      3 "LE_SIGN @ ''3%''" "''low''" "JStr ''30-39''" "[]"]
  by (simp add: p0a_by_cases p0b_by_cases calculatePretestProbability_script_def
      ptp_lookup_def PTP_TABLE_def show_small)


text \<open>
  C2. \<^verbatim>\<open>interpretCAC\<close> of \<^verbatim>\<open>src/script.js\<close> and of the second file of part\_000, on an
  input that converts to the number \<open>v\<close>: from 0 to 99 the category is \<open>low\<close> and the
  range "at most 15%", from 100 to 999 the category is \<open>intermediateHigh\<close> and the range
  "over 15 to 50%", from 1000 on the category is \<open>high\<close> and the range "over 50%". The
  result is the object of a success: not null in script.js, \<^verbatim>\<open>ok: true\<close> in part\_000.
  So 0 and 99 are low, 100 and 999 are intermediateHigh, and 1000 is high.
  The first file of part\_000 has a \<^verbatim>\<open>level\<close> in place of the category and four buckets:
  0 and 1 to 99 have the level \<open>low\<close> and the range "at most 15%", 100 to 999 the level
  \<open>high\<close> and the range "over 15 to 50%", 1000 and more the level \<open>veryhigh\<close> and the
  range "over 50%".
\<close>

theorem interpretCAC_buckets:
  "(Number_js strToNum cacScore = Fin v \<and> 0 \<le> v \<and> v \<le> 99 \<longrightarrow>
      interpretCAC_script strToNum cacScore = Some (CacRange (LE_SIGN @ ''15%'') ''low'') \<and>
      interpretCAC_p0b strToNum cacScore = CacGood (LE_SIGN @ ''15%'') ''low'') \<and>
   (Number_js strToNum cacScore = Fin v \<and> 100 \<le> v \<and> v \<le> 999 \<longrightarrow>
      interpretCAC_script strToNum cacScore =
        Some (CacRange (''>15'' @ EN_DASH @ ''50%'') ''intermediateHigh'') \<and>
      interpretCAC_p0b strToNum cacScore =
        CacGood (''>15'' @ EN_DASH @ ''50%'') ''intermediateHigh'') \<and>
   (Number_js strToNum cacScore = Fin v \<and> 1000 \<le> v \<longrightarrow>
      interpretCAC_script strToNum cacScore = Some (CacRange ''>50%'' ''high'') \<and>
      interpretCAC_p0b strToNum cacScore = CacGood ''>50%'' ''high'') \<and>
   interpretCAC_script strToNum (JNum (Fin 0)) = Some (CacRange (LE_SIGN @ ''15%'') ''low'') \<and>
   interpretCAC_script strToNum (JNum (Fin 99)) = Some (CacRange (LE_SIGN @ ''15%'') ''low'') \<and>
   interpretCAC_script strToNum (JNum (Fin 100)) =
     Some (CacRange (''>15'' @ EN_DASH @ ''50%'') ''intermediateHigh'') \<and>
   interpretCAC_script strToNum (JNum (Fin 999)) =
     Some (CacRange (''>15'' @ EN_DASH @ ''50%'') ''intermediateHigh'') \<and>
   interpretCAC_script strToNum (JNum (Fin 1000)) = Some (CacRange ''>50%'' ''high'') \<and>
   interpretCAC_p0b strToNum (JNum (Fin 0)) = CacGood (LE_SIGN @ ''15%'') ''low'' \<and>
   interpretCAC_p0b strToNum (JNum (Fin 99)) = CacGood (LE_SIGN @ ''15%'') ''low'' \<and>
   interpretCAC_p0b strToNum (JNum (Fin 100)) =
     CacGood (''>15'' @ EN_DASH @ ''50%'') ''intermediateHigh'' \<and>
   interpretCAC_p0b strToNum (JNum (Fin 999)) =
     CacGood (''>15'' @ EN_DASH @ ''50%'') ''intermediateHigh'' \<and>
   interpretCAC_p0b strToNum (JNum (Fin 1000)) = CacGood ''>50%'' ''high'' \<and>
   (cacScore \<noteq> JNull \<and> cacScore \<noteq> JUndefined \<and> cacScore \<noteq> JStr [] \<and>
    Number_js strToNum cacScore = Fin v \<longrightarrow>
      (v = 0 \<longrightarrow>
         (\<exists>lb dt. interpretCAC_p0a strToNum cacScore =
            Some (CacBucket ''0'' (LE_SIGN @ ''15%'') ''low'' lb dt))) \<and>
      (1 \<le> v \<and> v \<le> 99 \<longrightarrow>
         (\<exists>lb dt. interpretCAC_p0a strToNum cacScore =
            Some (CacBucket ''1-99'' (LE_SIGN @ ''15%'') ''low'' lb dt))) \<and>
      (100 \<le> v \<and> v \<le> 999 \<longrightarrow>
         (\<exists>lb dt. interpretCAC_p0a strToNum cacScore =
            Some (CacBucket ''100-999'' (''>15'' @ EN_DASH @ ''50%'') ''high'' lb dt))) \<and>
      (1000 \<le> v \<longrightarrow>
         (\<exists>lb dt. interpretCAC_p0a strToNum cacScore =
            Some (CacBucket ''>=1000'' ''>50%'' ''veryhigh'' lb dt)))) \<and>
   LE_SIGN = [CHR 0xE2, CHR 0x89, CHR 0xA4] \<and>
   EN_DASH = [CHR 0xE2, CHR 0x80, CHR 0x93]"
proof -
  have three:
    "Number_js strToNum cacScore = Fin v \<and> 0 \<le> v \<and> v \<le> 99 \<longrightarrow>
      interpretCAC_script strToNum cacScore = Some (CacRange (LE_SIGN @ ''15%'') ''low'') \<and>
      interpretCAC_p0b strToNum cacScore = CacGood (LE_SIGN @ ''15%'') ''low''"
    "Number_js strToNum cacScore = Fin v \<and> 100 \<le> v \<and> v \<le> 999 \<longrightarrow>
      interpretCAC_script strToNum cacScore =
        Some (CacRange (''>15'' @ EN_DASH @ ''50%'') ''intermediateHigh'') \<and>
      interpretCAC_p0b strToNum cacScore =
        CacGood (''>15'' @ EN_DASH @ ''50%'') ''intermediateHigh''"
    "Number_js strToNum cacScore = Fin v \<and> 1000 \<le> v \<longrightarrow>
      interpretCAC_script strToNum cacScore = Some (CacRange ''>50%'' ''high'') \<and>
      interpretCAC_p0b strToNum cacScore = CacGood ''>50%'' ''high''"
    by (simp_all add: interpretCAC_script_def interpretCAC_p0b_def)
  have at_script:
    "interpretCAC_script strToNum (JNum (Fin 0)) = Some (CacRange (LE_SIGN @ ''15%'') ''low'')"
    "interpretCAC_script strToNum (JNum (Fin 99)) = Some (CacRange (LE_SIGN @ ''15%'') ''low'')"
    "interpretCAC_script strToNum (JNum (Fin 100)) =
       Some (CacRange (''>15'' @ EN_DASH @ ''50%'') ''intermediateHigh'')"
    "interpretCAC_script strToNum (JNum (Fin 999)) =
       Some (CacRange (''>15'' @ EN_DASH @ ''50%'') ''intermediateHigh'')"
    "interpretCAC_script strToNum (JNum (Fin 1000)) = Some (CacRange ''>50%'' ''high'')"
    by (simp_all add: interpretCAC_script_def)
  have at_p0b:
    "interpretCAC_p0b strToNum (JNum (Fin 0)) = CacGood (LE_SIGN @ ''15%'') ''low''"
    "interpretCAC_p0b strToNum (JNum (Fin 99)) = CacGood (LE_SIGN @ ''15%'') ''low''"
    "interpretCAC_p0b strToNum (JNum (Fin 100)) =
       CacGood (''>15'' @ EN_DASH @ ''50%'') ''intermediateHigh''"
    "interpretCAC_p0b strToNum (JNum (Fin 999)) =
       CacGood (''>15'' @ EN_DASH @ ''50%'') ''intermediateHigh''"
    "interpretCAC_p0b strToNum (JNum (Fin 1000)) = CacGood ''>50%'' ''high''"
    by (simp_all add: interpretCAC_p0b_def)
  have four:
    "cacScore \<noteq> JNull \<and> cacScore \<noteq> JUndefined \<and> cacScore \<noteq> JStr [] \<and>
     Number_js strToNum cacScore = Fin v \<longrightarrow>
      (v = 0 \<longrightarrow>
         (\<exists>lb dt. interpretCAC_p0a strToNum cacScore =
            Some (CacBucket ''0'' (LE_SIGN @ ''15%'') ''low'' lb dt))) \<and>
      (1 \<le> v \<and> v \<le> 99 \<longrightarrow>
         (\<exists>lb dt. interpretCAC_p0a strToNum cacScore =
            Some (CacBucket ''1-99'' (LE_SIGN @ ''15%'') ''low'' lb dt))) \<and>
      (100 \<le> v \<and> v \<le> 999 \<longrightarrow>
         (\<exists>lb dt. interpretCAC_p0a strToNum cacScore =
            Some (CacBucket ''100-999'' (''>15'' @ EN_DASH @ ''50%'') ''high'' lb dt))) \<and>
      (1000 \<le> v \<longrightarrow>
         (\<exists>lb dt. interpretCAC_p0a strToNum cacScore =
            Some (CacBucket ''>=1000'' ''>50%'' ''veryhigh'' lb dt)))"
    by (simp add: interpretCAC_p0a_def)
  from three at_script at_p0b four LE_SIGN_def EN_DASH_def show ?thesis by blast
qed

theorem interpretCAC_buckets_witness:
  "Number_js (\<lambda>s. NaN) (JNum (Fin 42)) = Fin 42 \<and> (0::real) \<le> 42 \<and> (42::real) \<le> 99 \<and>
   JNum (Fin 42) \<noteq> JNull \<and> JNum (Fin 42) \<noteq> JUndefined \<and> JNum (Fin 42) \<noteq> JStr [] \<and>
   interpretCAC_script (\<lambda>s. NaN) (JNum (Fin 42)) = Some (CacRange (LE_SIGN @ ''15%'') ''low'') \<and>
   interpretCAC_p0b (\<lambda>s. NaN) (JNum (Fin 42)) = CacGood (LE_SIGN @ ''15%'') ''low'' \<and>
   (\<exists>lb dt. interpretCAC_p0a (\<lambda>s. NaN) (JNum (Fin 42)) =
      Some (CacBucket ''1-99'' (LE_SIGN @ ''15%'') ''low'' lb dt)) \<and>
   Number_js (\<lambda>s. Fin 250.5) (JStr ''250.5'') = Fin 250.5 \<and>
   (100::real) \<le> 250.5 \<and> (250.5::real) \<le> 999 \<and>
   interpretCAC_script (\<lambda>s. Fin 250.5) (JStr ''250.5'') =
     Some (CacRange (''>15'' @ EN_DASH @ ''50%'') ''intermediateHigh'') \<and>
   (1000::real) \<le> 4000 \<and>
   interpretCAC_p0b (\<lambda>s. NaN) (JNum (Fin 4000)) = CacGood ''>50%'' ''high''"
  using interpretCAC_buckets [of "\<lambda>s. NaN" "JNum (Fin 42)" 42]
    interpretCAC_buckets [of "\<lambda>s. Fin 250.5" "JStr ''250.5''" "250.5"]
    interpretCAC_buckets [of "\<lambda>s. NaN" "JNum (Fin 4000)" 4000]
  by simp

text \<open>
  The claim as the spec words it fails on the first file of part\_000: the object for 100
  has the level \<open>high\<close> and the object for 1000 the level \<open>veryhigh\<close>, where the claim has
  the categories \<open>intermediateHigh\<close> and \<open>high\<close>.
\<close>

theorem interpretCAC_p0a_has_other_levels:
  "interpretCAC_p0a (\<lambda>s. NaN) (JNum (Fin 100)) =
     Some (CacBucket ''100-999'' (''>15'' @ [CHR 0xE2, CHR 0x80, CHR 0x93] @ ''50%'') ''high''
       (''CAC 100'' @ EN_DASH @ ''999'')
       (''CAC 100'' @ EN_DASH @ ''999 '' @ RIGHT_ARROW @ '' >15'' @ EN_DASH @ ''50%.'')) \<and>
   ''high'' \<noteq> ''intermediateHigh'' \<and>
   interpretCAC_p0a (\<lambda>s. NaN) (JNum (Fin 1000)) =
     Some (CacBucket ''>=1000'' ''>50%'' ''veryhigh'' (''CAC '' @ GE_SIGN @ ''1000'')
       (''CAC '' @ GE_SIGN @ ''1000 '' @ RIGHT_ARROW @ '' >50%.'')) \<and>
   ''veryhigh'' \<noteq> ''high''"
  by (simp add: interpretCAC_p0a_def EN_DASH_def)

text \<open>
  A defect of the first file of part\_000, outside what is stated above: its four
  buckets are tested as \<open>n = 0\<close>, \<open>1 \<le> n \<le> 99\<close> and \<open>100 \<le> n \<le> 999\<close>, so a score
  strictly between two of them (0.5, 99.5, 999.5) reaches the last return and is
  labelled as 1000 or more, against the labels of the function itself and against the
  other two files, which put 0.5 in the low bucket.
\<close>

lemma interpretCAC_p0a_gap:
  "v \<in> set [0.5, 99.5, 999.5] \<Longrightarrow>
     interpretCAC_p0a strToNum (JNum (Fin v)) =
       Some (CacBucket ''>=1000'' ''>50%'' ''veryhigh'' (''CAC '' @ GE_SIGN @ ''1000'')
         (''CAC '' @ GE_SIGN @ ''1000 '' @ RIGHT_ARROW @ '' >50%.''))"
  "interpretCAC_script strToNum (JNum (Fin 0.5)) = Some (CacRange (LE_SIGN @ ''15%'') ''low'')"
  "interpretCAC_p0b strToNum (JNum (Fin 0.5)) = CacGood (LE_SIGN @ ''15%'') ''low''"
  by (auto simp: interpretCAC_p0a_def interpretCAC_script_def interpretCAC_p0b_def)

text \<open>
  C6. \<^verbatim>\<open>interpretCAC\<close> of the first file of part\_000 returns null for null, undefined
  and the empty string. For any other input whose conversion to a number is not finite
  or is negative it returns the failure object \<^verbatim>\<open>{ ok: false, level: "bad", label:
  "Invalid CAC", ... }\<close>, which is neither null nor a success; \<open>-1\<close> is such an input.
  In the other two files \<^verbatim>\<open>interpretCAC\<close> does not test for an empty input, it converts
  it (null to 0, the low bucket), and the caller answers an empty input with null without
  calling it; for an input whose conversion is not finite or is negative the second file
  of part\_000 returns the failure object \<^verbatim>\<open>{ ok: false, msg }\<close> and \<^verbatim>\<open>src/script.js\<close>
  returns null. In the three files the result of \<^verbatim>\<open>calculatePretestProbability\<close> that
  \<^verbatim>\<open>onCalculate\<close> hands on is computed from the age, the sex and the symptom only:
  changing the CAC input does not change it.
\<close>

theorem interpretCAC_null_or_failure:
  "interpretCAC_p0a strToNum JNull = None \<and>
   interpretCAC_p0a strToNum JUndefined = None \<and>
   interpretCAC_p0a strToNum (JStr []) = None \<and>
   (v \<noteq> JNull \<and> v \<noteq> JUndefined \<and> v \<noteq> JStr [] \<and>
    (\<forall>r. Number_js strToNum v = Fin r \<longrightarrow> r < 0) \<longrightarrow>
      interpretCAC_p0a strToNum v = Some CAC_INVALID_p0a) \<and>
   interpretCAC_p0a strToNum (JNum (Fin (- 1))) = Some CAC_INVALID_p0a \<and>
   CAC_INVALID_p0a =
     CacInvalid ''bad'' ''Invalid CAC''
       (''CAC must be a number '' @ [CHR 0xE2, CHR 0x89, CHR 0xA5] @ '' 0.'') \<and>
   \<not> cac_ok_p0a CAC_INVALID_p0a \<and>
   ((\<forall>r. Number_js strToNum v = Fin r \<longrightarrow> r < 0) \<longrightarrow>
      interpretCAC_p0b strToNum v =
        CacBad (''CAC must be a number '' @ [CHR 0xE2, CHR 0x89, CHR 0xA5] @ '' 0.'') \<and>
      interpretCAC_script strToNum v = None) \<and>
   interpretCAC_p0b strToNum JNull = CacGood (LE_SIGN @ ''15%'') ''low'' \<and>
   interpretCAC_script strToNum JNull = Some (CacRange (LE_SIGN @ ''15%'') ''low'') \<and>
   fst (snd (onCalculate_p0a strToNum (els\<lparr>cac_value := []\<rparr>))) = None \<and>
   snd (onCalculate_p0b strToNum (els\<lparr>cac_value := []\<rparr>)) = None \<and>
   snd (onCalculate_script strToNum (els\<lparr>cac_value := []\<rparr>)) = None \<and>
   fst (onCalculate_p0a strToNum els) =
     calculatePretestProbability_p0a (JNum (Number_js strToNum (JStr (age_value els))))
       (JStr (sex_value els)) (JStr (symptom_value els)) \<and>
   fst (onCalculate_p0a strToNum (els\<lparr>cac_value := c\<rparr>)) = fst (onCalculate_p0a strToNum els) \<and>
   fst (onCalculate_p0b strToNum (els\<lparr>cac_value := c\<rparr>)) = fst (onCalculate_p0b strToNum els) \<and>
   fst (onCalculate_script strToNum (els\<lparr>cac_value := c\<rparr>)) =
     fst (onCalculate_script strToNum els)"
proof -
  have nulls:
    "interpretCAC_p0a strToNum JNull = None"
    "interpretCAC_p0a strToNum JUndefined = None"
    "interpretCAC_p0a strToNum (JStr []) = None"
    by (simp_all add: interpretCAC_p0a_def)
  have invalid:
    "v \<noteq> JNull \<and> v \<noteq> JUndefined \<and> v \<noteq> JStr [] \<and>
      (\<forall>r. Number_js strToNum v = Fin r \<longrightarrow> r < 0) \<longrightarrow>
        interpretCAC_p0a strToNum v = Some CAC_INVALID_p0a"
    by (simp add: interpretCAC_p0a_def split: jsnum.splits)
  have minus_one: "interpretCAC_p0a strToNum (JNum (Fin (- 1))) = Some CAC_INVALID_p0a"
    by (simp add: interpretCAC_p0a_def)
  have shape:
    "CAC_INVALID_p0a =
       CacInvalid ''bad'' ''Invalid CAC''
         (''CAC must be a number '' @ [CHR 0xE2, CHR 0x89, CHR 0xA5] @ '' 0.'')"
    "\<not> cac_ok_p0a CAC_INVALID_p0a"
    by (simp_all add: CAC_INVALID_p0a_def GE_SIGN_def)
  have others:
    "(\<forall>r. Number_js strToNum v = Fin r \<longrightarrow> r < 0) \<longrightarrow>
      interpretCAC_p0b strToNum v =
        CacBad (''CAC must be a number '' @ [CHR 0xE2, CHR 0x89, CHR 0xA5] @ '' 0.'') \<and>
      interpretCAC_script strToNum v = None"
    by (simp add: interpretCAC_script_def interpretCAC_p0b_def GE_SIGN_def split: jsnum.splits)
  have null_converted:
    "interpretCAC_p0b strToNum JNull = CacGood (LE_SIGN @ ''15%'') ''low''"
    "interpretCAC_script strToNum JNull = Some (CacRange (LE_SIGN @ ''15%'') ''low'')"
    by (simp_all add: interpretCAC_script_def interpretCAC_p0b_def)
  have empty:
    "fst (snd (onCalculate_p0a strToNum (els\<lparr>cac_value := []\<rparr>))) = None"
    "snd (onCalculate_p0b strToNum (els\<lparr>cac_value := []\<rparr>)) = None"
    "snd (onCalculate_script strToNum (els\<lparr>cac_value := []\<rparr>)) = None"
    by (simp_all add: onCalculate_p0a_def onCalculate_p0b_def onCalculate_script_def Let_def)
  have ptp:
    "fst (onCalculate_p0a strToNum els) =
       calculatePretestProbability_p0a (JNum (Number_js strToNum (JStr (age_value els))))
         (JStr (sex_value els)) (JStr (symptom_value els))" for els
    by (simp add: onCalculate_p0a_def Let_def)
  have indep:
    "fst (onCalculate_p0a strToNum (els\<lparr>cac_value := c\<rparr>)) = fst (onCalculate_p0a strToNum els)"
    "fst (onCalculate_p0b strToNum (els\<lparr>cac_value := c\<rparr>)) = fst (onCalculate_p0b strToNum els)"
    "fst (onCalculate_script strToNum (els\<lparr>cac_value := c\<rparr>)) =
       fst (onCalculate_script strToNum els)"
    by (simp_all add: onCalculate_p0a_def onCalculate_p0b_def onCalculate_script_def Let_def)
  from nulls invalid minus_one shape others null_converted empty ptp [of els] indep
  show ?thesis by blast
qed

theorem interpretCAC_null_or_failure_witness:
  "JStr ''abc'' \<noteq> JNull \<and> JStr ''abc'' \<noteq> JUndefined \<and> JStr ''abc'' \<noteq> JStr [] \<and>
   Number_js (\<lambda>s. NaN) (JStr ''abc'') = NaN \<and>
   interpretCAC_p0a (\<lambda>s. NaN) (JStr ''abc'') = Some CAC_INVALID_p0a \<and>
   interpretCAC_p0a (\<lambda>s. NaN) (JNum (Fin (- 1))) = Some CAC_INVALID_p0a \<and>
   interpretCAC_p0b (\<lambda>s. NaN) (JStr ''abc'') =
     CacBad (''CAC must be a number '' @ [CHR 0xE2, CHR 0x89, CHR 0xA5] @ '' 0.'') \<and>
   interpretCAC_script (\<lambda>s. NaN) (JStr ''abc'') = None"
  using interpretCAC_null_or_failure [of "\<lambda>s. NaN" "JStr ''abc''"]
  by simp

text \<open>
  The claim as the spec words it fails on \<^verbatim>\<open>src/script.js\<close>: \<open>-1\<close> is answered with
  null, not with a failure object, and null is converted to 0 and answered with the low
  bucket, not with null.
\<close>

theorem script_interpretCAC_null_for_invalid:
  "interpretCAC_script (\<lambda>s. NaN) (JNum (Fin (- 1))) = None \<and>
   interpretCAC_script (\<lambda>s. NaN) JNull =
     Some (CacRange ([CHR 0xE2, CHR 0x89, CHR 0xA4] @ ''15%'') ''low'')"
  by (simp add: interpretCAC_script_def LE_SIGN_def)

end
